theory Spec2Isabelle
  imports Complex_Main
begin

section \<open>Numbers\<close>

text \<open>
  The numbers of \<^verbatim>\<open>src/App.tsx\<close> are JavaScript numbers. They are modelled as exact
  reals, extended by the three special results that a division can produce: \<open>NaN\<close>
  (for \<open>0 / 0\<close> and for arithmetic on \<open>undefined\<close>) and the two infinities (a non-zero
  value divided by zero). The arithmetic of this model is exact: the rounding of double
  precision, its overflow to an infinity and its underflow to zero are not part of it, so
  a result proved here is the code's result only where the code's arithmetic is exact.
\<close>

datatype number = Num real | NaN | PosInf | NegInf

text \<open>\<open>x / y\<close> on two finite numbers.\<close>

definition divide_js :: "real \<Rightarrow> real \<Rightarrow> number" where
  "divide_js x y =
     (if y = 0 then (if x = 0 then NaN else if 0 < x then PosInf else NegInf)
      else Num (x / y))"

text \<open>\<open>s <= c\<close> for a finite constant \<open>c\<close>: every comparison with \<open>NaN\<close> is false.\<close>

fun le_js :: "number \<Rightarrow> real \<Rightarrow> bool" where
  "le_js (Num x) c = (x \<le> c)"
| "le_js NaN c = False"
| "le_js PosInf c = False"
| "le_js NegInf c = True"

text \<open>\<open>b[i]\<close>: reading past the end of an array gives \<open>undefined\<close>.\<close>

definition at_js :: "'a list \<Rightarrow> nat \<Rightarrow> 'a option" where
  "at_js xs i = (if i < length xs then Some (xs ! i) else None)"

section \<open>Similarity engine\<close>

text \<open>
  \<^verbatim>\<open>
  const cosineSimilarity = (a: number[], b: number[]) => {
    const dotProduct = a.reduce((sum, _, i) => sum + a[i] * b[i], 0);
    const magnitudeA = Math.sqrt(a.reduce((sum, val) => sum + val * val, 0));
    const magnitudeB = Math.sqrt(b.reduce((sum, val) => sum + val * val, 0));
    return dotProduct / (magnitudeA * magnitudeB);
  };
  \<close>
  The first \<open>reduce\<close> walks the indices of \<open>a\<close>; where \<open>b\<close> is shorter, \<open>b[i]\<close> is
  \<open>undefined\<close>, the product is \<open>NaN\<close> and the sum stays \<open>NaN\<close>.
\<close>

definition dotStep :: "real list \<Rightarrow> real list \<Rightarrow> number \<Rightarrow> nat \<Rightarrow> number" where
  "dotStep a b acc i =
     (case acc of
        Num t \<Rightarrow> (case at_js b i of Some y \<Rightarrow> Num (t + a ! i * y) | None \<Rightarrow> NaN)
      | other \<Rightarrow> NaN)"

definition dotProduct :: "real list \<Rightarrow> real list \<Rightarrow> number" where
  "dotProduct a b = foldl (dotStep a b) (Num 0) [0 ..< length a]"

definition magnitude :: "real list \<Rightarrow> real" where
  "magnitude a = sqrt (foldl (\<lambda>acc val. acc + val * val) 0 a)"

definition cosineSimilarity :: "real list \<Rightarrow> real list \<Rightarrow> number" where
  "cosineSimilarity a b =
     (let magnitudeA = magnitude a;
          magnitudeB = magnitude b
      in case dotProduct a b of
           Num d \<Rightarrow> divide_js d (magnitudeA * magnitudeB)
         | other \<Rightarrow> NaN)"

section \<open>Presentation band\<close>

text \<open>
  \<^verbatim>\<open>
  "background-color": similarity() <= 0.5 ? '#d93025' : similarity() <= 0.7 ? '#f9ab00' : '#1e8e3e'
  \<close>
  The three colours are the bands the specification calls low, medium and high.
\<close>

definition low :: string where "low = ''#d93025''"
definition medium :: string where "medium = ''#f9ab00''"
definition high :: string where "high = ''#1e8e3e''"

definition similarityIndicator :: "number \<Rightarrow> string" where
  "similarityIndicator s =
     (if le_js s 0.5 then ''#d93025'' else if le_js s 0.7 then ''#f9ab00'' else ''#1e8e3e'')"

section \<open>Application state\<close>

text \<open>
  A captured frame is a canvas holding a copy of the video's picture; the video element
  shows the picture of the stream attached to it. Pixel data and streams are abstract.
\<close>

record canvas =
  width :: nat
  height :: nat
  pixels :: "nat list"

record video =
  videoWidth :: nat
  videoHeight :: nat
  picture :: "nat list"
  srcObject :: "nat option"

record img =
  src :: "canvas option"
  display :: string

datatype error = TypeError | InferenceFailure

text \<open>
  The loaded model, as \<open>getImageEmbedding\<close> uses it: from an image to its embedding,
  or to the failure of the inference.
\<close>

type_synonym embedder = "canvas \<Rightarrow> error + real list"

text \<open>
  The component's variables and signals (lines 6 to 19), the scoring cycles that have
  started and not yet written their score (\<open>inflight\<close>: each holds the two images it
  embeds), and whether the interval timer of the effect (lines 134 to 139) is set.
\<close>

record state =
  videoRef :: "video option"
  beforeImageRef :: "img option"
  model :: "embedder option"
  beforeImageCapture :: "canvas option"
  afterImageCapture :: "canvas option"
  currentFacingMode :: string
  similarity :: number
  errorMessage :: string
  isMobileDevice :: bool
  showLiveFeed :: bool
  isModelLoading :: bool
  isPortrait :: bool
  inflight :: "(canvas \<times> canvas) list"
  intervalActive :: bool

text \<open>The state when the component is created; \<open>portrait\<close> is the window's shape.\<close>

definition initial :: "bool \<Rightarrow> state" where
  "initial portrait =
     \<lparr>videoRef = None, beforeImageRef = None, model = None,
      beforeImageCapture = None, afterImageCapture = None,
      currentFacingMode = ''user'', similarity = Num 0, errorMessage = [],
      isMobileDevice = False, showLiveFeed = True, isModelLoading = True,
      isPortrait = portrait, inflight = [], intervalActive = False\<rparr>"

section \<open>Camera session and model loading\<close>

text \<open>
  \<open>setupCamera\<close> awaits \<open>getUserMedia\<close>; its outcome (a stream, or an error with its
  message) and the result of \<open>isMobile()\<close> come from the browser.
\<close>

datatype streamResult = Stream nat | CameraError string

definition setupCamera :: "bool \<Rightarrow> streamResult \<Rightarrow> state \<Rightarrow> state" where
  "setupCamera mobile outcome s =
     (case outcome of
        Stream st \<Rightarrow>
          (let s1 = (case videoRef s of
                       Some v \<Rightarrow> s\<lparr>videoRef := Some (v\<lparr>srcObject := Some st\<rparr>)\<rparr>
                     | None \<Rightarrow> s)
           in s1\<lparr>isMobileDevice := mobile\<rparr>)
      | CameraError msg \<Rightarrow> s\<lparr>errorMessage := ''Error accessing camera: '' @ msg\<rparr>)"

text \<open>
  While \<open>isModelLoading()\<close> holds, the view is the loading indicator (line 154). When the
  signal becomes false the main view is built: its \<open>video\<close> and \<open>img\<close> elements are
  created, with no stream and no source, and bound to \<open>videoRef\<close> and \<open>beforeImageRef\<close>.
\<close>

definition blankVideo :: video where
  "blankVideo = \<lparr>videoWidth = 0, videoHeight = 0, picture = [], srcObject = None\<rparr>"

definition blankImg :: img where
  "blankImg = \<lparr>src = None, display = ''none''\<rparr>"

definition setIsModelLoading :: "bool \<Rightarrow> state \<Rightarrow> state" where
  "setIsModelLoading v s =
     (if isModelLoading s \<and> \<not> v
      then s\<lparr>isModelLoading := False, videoRef := Some blankVideo,
             beforeImageRef := Some blankImg\<rparr>
      else s\<lparr>isModelLoading := v\<rparr>)"

text \<open>
  \<open>loadModel\<close> (lines 52 to 61) runs up to its \<open>await\<close>, and later continues with the
  outcome of \<open>tf.loadLayersModel\<close>: the model, or an error with its message.
\<close>

datatype loadResult = Loaded embedder | LoadError string

definition loadModel_begin :: "state \<Rightarrow> state" where
  "loadModel_begin s = setIsModelLoading True s"

definition loadModel_settle :: "loadResult \<Rightarrow> state \<Rightarrow> state" where
  "loadModel_settle outcome s =
     (case outcome of
        Loaded m \<Rightarrow> setIsModelLoading False (s\<lparr>model := Some m\<rparr>)
      | LoadError msg \<Rightarrow>
          setIsModelLoading False (s\<lparr>errorMessage := ''Error loading model: '' @ msg\<rparr>))"

definition loadModel :: "loadResult \<Rightarrow> state \<Rightarrow> state" where
  "loadModel outcome s = loadModel_settle outcome (loadModel_begin s)"

section \<open>Capture and scoring\<close>

text \<open>\<open>captureImage\<close> (lines 63 to 70): \<open>null\<close> without a video element, else a new
  canvas of the video's size with the video's picture drawn on it.\<close>

definition captureImage :: "state \<Rightarrow> canvas option" where
  "captureImage s =
     (case videoRef s of
        None \<Rightarrow> None
      | Some v \<Rightarrow> Some \<lparr>width = videoWidth v, height = videoHeight v, pixels = picture v\<rparr>)"

text \<open>
  \<open>updateSimilarityScore\<close> (lines 89 to 98) is asynchronous. It runs at once up to the
  first \<open>await\<close>: it returns when an image is missing, and \<open>model.predict\<close> on an unset
  model throws a \<open>TypeError\<close>, which rejects its promise. Otherwise the cycle is in
  flight with its two images.
\<close>

definition updateSimilarityScore_begin :: "state \<Rightarrow> error + state" where
  "updateSimilarityScore_begin s =
     (case beforeImageCapture s of
        None \<Rightarrow> Inr s
      | Some before \<Rightarrow>
          (case captureImage s of
             None \<Rightarrow> Inr s
           | Some current \<Rightarrow>
               (case model s of
                  None \<Rightarrow> Inl TypeError
                | Some m \<Rightarrow> Inr (s\<lparr>inflight := inflight s @ [(before, current)]\<rparr>))))"

text \<open>
  The rest of cycle \<open>i\<close>: both embeddings resolve and the score is written; a failed
  inference rejects the promise and writes nothing. The cycle touches no shared state
  between its two \<open>await\<close>s, so its completion is one step. Other events can happen
  between the start of a cycle and its completion.
\<close>

definition dropCycle :: "nat \<Rightarrow> state \<Rightarrow> state" where
  "dropCycle i s = s\<lparr>inflight := take i (inflight s) @ drop (Suc i) (inflight s)\<rparr>"

definition updateSimilarityScore_settle :: "nat \<Rightarrow> state \<Rightarrow> error + state" where
  "updateSimilarityScore_settle i s =
     (case at_js (inflight s) i of
        None \<Rightarrow> Inr s
      | Some (before, current) \<Rightarrow>
          (case model s of
             None \<Rightarrow> Inl TypeError
           | Some m \<Rightarrow>
               (case m before of
                  Inl e \<Rightarrow> Inl e
                | Inr beforeEmbedding \<Rightarrow>
                    (case m current of
                       Inl e \<Rightarrow> Inl e
                     | Inr currentEmbedding \<Rightarrow>
                         Inr ((dropCycle i s)
                                \<lparr>similarity :=
                                   cosineSimilarity beforeEmbedding currentEmbedding\<rparr>)))))"

text \<open>\<open>captureBefore\<close> (lines 100 to 109).\<close>

definition captureBefore :: "state \<Rightarrow> state" where
  "captureBefore s =
     (case captureImage s of
        None \<Rightarrow> s
      | Some captured \<Rightarrow>
          (let s1 = s\<lparr>beforeImageCapture := Some captured\<rparr>
           in case beforeImageRef s1 of
                None \<Rightarrow> s1
              | Some el \<Rightarrow>
                  s1\<lparr>beforeImageRef := Some (el\<lparr>src := Some captured, display := ''block''\<rparr>)\<rparr>))"

text \<open>\<open>captureAfter\<close> (lines 111 to 119); the promise of the scoring cycle it starts is
  dropped.\<close>

definition captureAfter :: "state \<Rightarrow> state" where
  "captureAfter s =
     (if beforeImageCapture s = None \<or> model s = None then s
      else case captureImage s of
             None \<Rightarrow> s
           | Some captured \<Rightarrow>
               (let s1 = s\<lparr>afterImageCapture := Some captured\<rparr>;
                    s2 = (case updateSimilarityScore_begin s1 of
                            Inl e \<Rightarrow> s1
                          | Inr s' \<Rightarrow> s')
                in s2\<lparr>showLiveFeed := False\<rparr>))"

text \<open>\<open>reset\<close> (lines 121 to 127).\<close>

definition reset :: "state \<Rightarrow> state" where
  "reset s =
     (let s1 = s\<lparr>beforeImageCapture := None, afterImageCapture := None\<rparr>;
          s2 = (case beforeImageRef s1 of
                  None \<Rightarrow> s1
                | Some el \<Rightarrow> s1\<lparr>beforeImageRef := Some (el\<lparr>display := ''none''\<rparr>)\<rparr>)
      in s2\<lparr>similarity := Num 0, showLiveFeed := True\<rparr>)"

text \<open>\<open>switchCamera\<close> (lines 129 to 132).\<close>

definition switchCamera :: "bool \<Rightarrow> streamResult \<Rightarrow> state \<Rightarrow> state" where
  "switchCamera mobile outcome s =
     setupCamera mobile outcome
       (s\<lparr>currentFacingMode :=
            (if currentFacingMode s = ''user'' then ''environment'' else ''user'')\<rparr>)"

text \<open>
  The button of \<open>captureBefore\<close> (line 194) exists only in the main view and is disabled
  while a before-frame is stored or the model is loading; a click on it calls the handler
  only when it is enabled.
\<close>

definition captureBeforeDisabled :: "state \<Rightarrow> bool" where
  "captureBeforeDisabled s = (beforeImageCapture s \<noteq> None \<or> isModelLoading s)"

definition clickCaptureBefore :: "state \<Rightarrow> state" where
  "clickCaptureBefore s =
     (if isModelLoading s \<or> captureBeforeDisabled s then s else captureBefore s)"

section \<open>Scoring scheduler\<close>

text \<open>
  The effect of lines 134 to 139 runs again whenever a signal it read has changed; its
  cleanup clears the interval of the previous run first. After a handler has finished,
  the interval is set exactly when the last run found a before-frame and the live feed
  shown.
\<close>

definition createEffect :: "state \<Rightarrow> state" where
  "createEffect s = s\<lparr>intervalActive := (beforeImageCapture s \<noteq> None \<and> showLiveFeed s)\<rparr>"

text \<open>
  What can happen to the component: a command is called, the interval fires, a scoring
  cycle in flight completes, the model load settles, the playing video shows a new
  picture. \<open>step\<close> is \<open>None\<close> where the event cannot happen.
\<close>

datatype event =
    CaptureBefore
  | CaptureAfter
  | Reset
  | SwitchCamera bool streamResult
  | Tick
  | Settle nat
  | ModelLoad loadResult
  | VideoFrame nat nat "nat list"

fun step :: "event \<Rightarrow> state \<Rightarrow> state option" where
  "step CaptureBefore s = Some (createEffect (captureBefore s))"
| "step CaptureAfter s = Some (createEffect (captureAfter s))"
| "step Reset s = Some (createEffect (reset s))"
| "step (SwitchCamera mobile outcome) s = Some (createEffect (switchCamera mobile outcome s))"
| "step Tick s =
     (if intervalActive s
      then Some (case updateSimilarityScore_begin s of Inl e \<Rightarrow> s | Inr s' \<Rightarrow> s')
      else None)"
| "step (Settle i) s =
     (if i < length (inflight s)
      then Some (case updateSimilarityScore_settle i s of
                   Inl e \<Rightarrow> dropCycle i s
                 | Inr s' \<Rightarrow> s')
      else None)"
| "step (ModelLoad outcome) s =
     (if isModelLoading s then Some (createEffect (loadModel_settle outcome s)) else None)"
| "step (VideoFrame w h p) s =
     (case videoRef s of
        None \<Rightarrow> None
      | Some v \<Rightarrow>
          (if srcObject v = None then None
           else Some (s\<lparr>videoRef := Some (v\<lparr>videoWidth := w, videoHeight := h, picture := p\<rparr>)\<rparr>)))"

fun run :: "event list \<Rightarrow> state \<Rightarrow> state option" where
  "run [] s = Some s"
| "run (e # es) s = (case step e s of None \<Rightarrow> None | Some s' \<Rightarrow> run es s')"

section \<open>Phases and example states\<close>

text \<open>
  The three phases of the capture state machine, read off the two stored frames the way
  the buttons of lines 194 to 196 do.
\<close>

datatype phase = Live | BeforeCaptured | AfterCaptured

definition phase_of :: "state \<Rightarrow> phase" where
  "phase_of s =
     (case beforeImageCapture s of
        None \<Rightarrow> Live
      | Some b \<Rightarrow> (case afterImageCapture s of None \<Rightarrow> BeforeCaptured | Some a \<Rightarrow> AfterCaptured))"

text \<open>A model whose embedding of an image is its pixel values.\<close>

definition exModel :: embedder where
  "exModel = (\<lambda>c. Inr (map real (pixels c)))"

definition sceneA :: canvas where
  "sceneA = \<lparr>width = 2, height = 1, pixels = [1, 0]\<rparr>"

definition sceneB :: canvas where
  "sceneB = \<lparr>width = 2, height = 1, pixels = [0, 1]\<rparr>"

text \<open>The model is loaded, the camera plays picture \<open>p\<close>, nothing is captured.\<close>

definition watching :: "nat list \<Rightarrow> state" where
  "watching p =
     \<lparr>videoRef = Some \<lparr>videoWidth = 2, videoHeight = 1, picture = p, srcObject = Some 0\<rparr>,
      beforeImageRef = Some blankImg, model = Some exModel,
      beforeImageCapture = None, afterImageCapture = None,
      currentFacingMode = ''environment'', similarity = Num 0, errorMessage = [],
      isMobileDevice = False, showLiveFeed = True, isModelLoading = False,
      isPortrait = False, inflight = [], intervalActive = False\<rparr>"

text \<open>As before, with the before-frame \<open>c\<close> stored and the interval running.\<close>

definition holding :: "canvas \<Rightarrow> nat list \<Rightarrow> state" where
  "holding c p =
     (watching p)
       \<lparr>beforeImageCapture := Some c,
        beforeImageRef := Some \<lparr>src = Some c, display = ''block''\<rparr>,
        intervalActive := True\<rparr>"

text \<open>The component after its model load has failed.\<close>

definition loadFailed :: state where
  "loadFailed = loadModel (LoadError ''Failed to fetch'') (initial False)"

text \<open>The after-frame has just been captured while holding \<open>sceneA\<close>.\<close>

definition frozen :: state where
  "frozen = createEffect (captureAfter (holding sceneA [0, 1]))"

text \<open>
  The model is loaded and the main view is built, no stream is attached to the video
  element yet, and \<open>captureBefore\<close> has been called.
\<close>

definition blind :: state where
  "blind = createEffect (captureBefore (loadModel_settle (Loaded exModel) (initial False)))"

definition emptyFrame :: canvas where
  "emptyFrame = \<lparr>width = 0, height = 0, pixels = []\<rparr>"

section \<open>Properties of the similarity engine\<close>

lemma magnitude_1_0: "magnitude [1, 0] = 1"
  by (simp add: magnitude_def)

lemma magnitude_0_1: "magnitude [0, 1] = 1"
  by (simp add: magnitude_def)

lemma magnitude_06_08: "magnitude [3 / 5, 4 / 5] = 1"
proof -
  have "(3 / 5 :: real) * (3 / 5) + 4 / 5 * (4 / 5) = 1" by simp
  then show ?thesis by (simp add: magnitude_def)
qed

lemma upt_2: "[0 ..< 2] = [0, 1]"
  by (simp add: upt_rec)

lemma score_same: "cosineSimilarity [1, 0] [1, 0] = Num 1"
  by (simp add: cosineSimilarity_def dotProduct_def dotStep_def at_js_def divide_js_def
      magnitude_1_0 upt_2)

lemma score_orthogonal: "cosineSimilarity [1, 0] [0, 1] = Num 0"
  by (simp add: cosineSimilarity_def dotProduct_def dotStep_def at_js_def divide_js_def
      magnitude_1_0 magnitude_0_1 upt_2)

lemma score_close: "cosineSimilarity [1, 0] [3 / 5, 4 / 5] = Num (3 / 5)"
  by (simp add: cosineSimilarity_def dotProduct_def dotStep_def at_js_def divide_js_def
      magnitude_1_0 magnitude_06_08 upt_2)

text \<open>
  C6. The indicator of a score \<open>x\<close> has the colour of the band low when \<open>x \<le> 0.5\<close>, of
  medium when \<open>0.5 < x \<le> 0.7\<close> and of high when \<open>x > 0.7\<close>. The embeddings \<open>[1, 0]\<close> and
  \<open>[1, 0]\<close> score 1 (high), \<open>[1, 0]\<close> and \<open>[0, 1]\<close> score 0 (low), \<open>[1, 0]\<close> and
  \<open>[0.6, 0.8]\<close> score 0.6 (medium).
\<close>

theorem similarity_bands:
  "(x \<le> 0.5 \<longrightarrow> similarityIndicator (Num x) = low)
   \<and> (0.5 < x \<and> x \<le> 0.7 \<longrightarrow> similarityIndicator (Num x) = medium)
   \<and> (0.7 < x \<longrightarrow> similarityIndicator (Num x) = high)
   \<and> cosineSimilarity [1, 0] [1, 0] = Num 1
   \<and> similarityIndicator (cosineSimilarity [1, 0] [1, 0]) = high
   \<and> cosineSimilarity [1, 0] [0, 1] = Num 0
   \<and> similarityIndicator (cosineSimilarity [1, 0] [0, 1]) = low
   \<and> cosineSimilarity [1, 0] [0.6, 0.8] = Num 0.6
   \<and> similarityIndicator (cosineSimilarity [1, 0] [0.6, 0.8]) = medium"
  by (simp add: score_same score_orthogonal score_close similarityIndicator_def
      low_def medium_def high_def)

text \<open>One score in each band: 0.3, 0.6 and 0.9.\<close>

theorem similarity_bands_witness:
  "(0.3 :: real) \<le> 0.5 \<and> similarityIndicator (Num 0.3) = low
   \<and> (0.5 :: real) < 0.6 \<and> (0.6 :: real) \<le> 0.7 \<and> similarityIndicator (Num 0.6) = medium
   \<and> (0.7 :: real) < 0.9 \<and> similarityIndicator (Num 0.9) = high"
  using similarity_bands [of "0.3"] similarity_bands [of "0.6"] similarity_bands [of "0.9"]
  by simp

section \<open>Reachability of the example states\<close>

lemma watching_reachable:
  "run [ModelLoad (Loaded exModel), SwitchCamera False (Stream 0), VideoFrame 2 1 p]
     (initial False) = Some (watching p)"
  by (simp add: initial_def loadModel_settle_def setIsModelLoading_def createEffect_def
      switchCamera_def setupCamera_def blankVideo_def watching_def)

lemma holding_reachable:
  "run [CaptureBefore, VideoFrame 2 1 [0, 1]] (watching [1, 0]) = Some (holding sceneA [0, 1])"
  by (simp add: watching_def holding_def sceneA_def captureBefore_def captureImage_def
      createEffect_def blankImg_def)

lemma loadFailed_reachable:
  "run [ModelLoad (LoadError ''Failed to fetch'')] (initial False) = Some loadFailed"
  by (simp add: loadFailed_def loadModel_def loadModel_begin_def setIsModelLoading_def
      initial_def loadModel_settle_def createEffect_def)

section \<open>Properties of the capture commands\<close>

text \<open>
  A click on the button of \<open>captureBefore\<close> changes nothing while a before-frame is
  stored or the model is loading, since the button is then disabled or not there.
\<close>

lemma click_on_disabled_button:
  "beforeImageCapture s \<noteq> None \<or> isModelLoading s \<Longrightarrow> clickCaptureBefore s = s"
  by (auto simp add: clickCaptureBefore_def captureBeforeDisabled_def)

text \<open>
  C1, evaluated after a failed model load, where the model is not ready: no model is
  stored and the loading has ended. The button of \<open>captureBefore\<close> is enabled there, a
  click on it calls the handler, and the handler is not a no-op: the state changes, and
  a before-frame is stored where there was none.
\<close>

theorem captureBefore_click_without_model:
  "model loadFailed = None
   \<and> isModelLoading loadFailed = False
   \<and> beforeImageCapture loadFailed = None
   \<and> captureBeforeDisabled loadFailed = False
   \<and> clickCaptureBefore loadFailed = captureBefore loadFailed
   \<and> clickCaptureBefore loadFailed \<noteq> loadFailed
   \<and> beforeImageCapture (clickCaptureBefore loadFailed) = Some emptyFrame"
proof -
  have l: "loadFailed =
     (initial False)\<lparr>errorMessage := ''Error loading model: Failed to fetch'',
        isModelLoading := False, videoRef := Some blankVideo,
        beforeImageRef := Some blankImg\<rparr>"
    by (simp add: loadFailed_def loadModel_def loadModel_begin_def loadModel_settle_def
        setIsModelLoading_def initial_def)
  have b: "beforeImageCapture (clickCaptureBefore loadFailed) = Some emptyFrame"
    by (simp add: l clickCaptureBefore_def captureBeforeDisabled_def captureBefore_def
        captureImage_def initial_def blankVideo_def blankImg_def emptyFrame_def)
  have n: "beforeImageCapture loadFailed = None"
    by (simp add: l initial_def)
  from b n have d: "clickCaptureBefore loadFailed \<noteq> loadFailed"
    by auto
  have c: "clickCaptureBefore loadFailed = captureBefore loadFailed"
    by (simp add: l clickCaptureBefore_def captureBeforeDisabled_def initial_def)
  have m: "model loadFailed = None" "isModelLoading loadFailed = False"
    "captureBeforeDisabled loadFailed = False"
    by (simp_all add: l captureBeforeDisabled_def initial_def)
  from m n c d b show ?thesis by simp
qed

text \<open>The button is enabled after the failed load, and the click stores a frame.\<close>

theorem captureBefore_click_without_model_witness:
  "\<not> captureBeforeDisabled loadFailed
   \<and> beforeImageCapture (clickCaptureBefore loadFailed) \<noteq> None"
  using captureBefore_click_without_model by auto

lemma loadModel_failure_flags:
  "isModelLoading (loadModel (LoadError msg) s) = False
   \<and> errorMessage (loadModel (LoadError msg) s) \<noteq> []
   \<and> model (loadModel (LoadError msg) s) = model s"
  by (simp add: loadModel_def loadModel_begin_def loadModel_settle_def setIsModelLoading_def)

text \<open>
  C2, evaluated after a failed model load. \<open>isModelLoading\<close> is false, the error message
  is set, no model is stored and \<open>captureAfter\<close> changes nothing. \<open>captureBefore\<close> is not
  refused: no before-frame was stored, and after it one is (the picture of the video
  element just built). The interval then runs, and the scoring cycle of each tick is
  rejected with a \<open>TypeError\<close>.
\<close>

theorem captureBefore_after_load_failure:
  "isModelLoading loadFailed = False
   \<and> errorMessage loadFailed = ''Error loading model: Failed to fetch''
   \<and> model loadFailed = None
   \<and> captureAfter loadFailed = loadFailed
   \<and> beforeImageCapture loadFailed = None
   \<and> beforeImageCapture (captureBefore loadFailed) = Some \<lparr>width = 0, height = 0, pixels = []\<rparr>
   \<and> step Tick (createEffect (captureBefore loadFailed)) = Some (createEffect (captureBefore loadFailed))
   \<and> updateSimilarityScore_begin (createEffect (captureBefore loadFailed)) = Inl TypeError"
  by (simp add: loadFailed_def loadModel_def loadModel_begin_def loadModel_settle_def
      setIsModelLoading_def initial_def captureAfter_def captureBefore_def captureImage_def
      blankVideo_def blankImg_def createEffect_def updateSimilarityScore_begin_def)

text \<open>
  C3. From every state \<open>reset\<close> can be called and yields the phase Live: no before-frame,
  no after-frame, the score 0 and the live feed shown.
\<close>

theorem reset_yields_Live:
  "beforeImageCapture (reset s) = None
   \<and> afterImageCapture (reset s) = None
   \<and> similarity (reset s) = Num 0
   \<and> showLiveFeed (reset s)
   \<and> phase_of (reset s) = Live
   \<and> step Reset s \<noteq> None"
  by (simp add: reset_def phase_of_def Let_def split: option.split)

text \<open>
  C10. \<open>reset\<close> leaves the facing mode and the error message as they were, and with them
  every other variable that is not a stored frame, the score or the visibility of the
  live feed.
\<close>

theorem reset_keeps_facing_mode_and_error:
  "currentFacingMode (reset s) = currentFacingMode s
   \<and> errorMessage (reset s) = errorMessage s
   \<and> isMobileDevice (reset s) = isMobileDevice s
   \<and> isModelLoading (reset s) = isModelLoading s
   \<and> isPortrait (reset s) = isPortrait s
   \<and> model (reset s) = model s
   \<and> videoRef (reset s) = videoRef s
   \<and> inflight (reset s) = inflight s"
  by (simp add: reset_def Let_def split: option.split)

text \<open>
  C7. Without a before-frame, or without a model, \<open>captureAfter\<close> returns the state as it
  was: no after-frame is stored, the score is not changed, the live feed is not hidden
  and no scoring cycle is started.
\<close>

theorem captureAfter_refused:
  "beforeImageCapture s = None \<or> model s = None \<Longrightarrow>
   captureAfter s = s
   \<and> afterImageCapture (captureAfter s) = afterImageCapture s
   \<and> similarity (captureAfter s) = similarity s
   \<and> showLiveFeed (captureAfter s) = showLiveFeed s
   \<and> inflight (captureAfter s) = inflight s"
  by (simp add: captureAfter_def)

text \<open>In the phase Live, with the model loaded and the camera playing.\<close>

theorem captureAfter_refused_witness:
  "beforeImageCapture (watching [1, 0]) = None
   \<and> captureAfter (watching [1, 0]) = watching [1, 0]
   \<and> afterImageCapture (captureAfter (watching [1, 0])) = None
   \<and> showLiveFeed (captureAfter (watching [1, 0]))"
proof -
  have h: "beforeImageCapture (watching [1, 0]) = None"
    by (simp add: watching_def)
  from captureAfter_refused [of "watching [1, 0]"] h show ?thesis
    by (simp add: watching_def)
qed

text \<open>
  C9. \<open>switchCamera\<close> toggles the facing mode and acquires the stream again: when the
  camera answers with a stream, that stream becomes the source of the video element (if
  there is one) and \<open>isMobileDevice\<close> is set; when it answers with an error, the error
  message is set and the video element keeps what it had. In both cases the stored
  before-frame, the after-frame and the score are the same after it as before it, and so
  are the phase, the visibility of the live feed, the overlay image, the model, the
  scoring cycles in flight and the state of the interval.
\<close>

theorem switchCamera_keeps_capture_state:
  "currentFacingMode (switchCamera mobile outcome s)
     = (if currentFacingMode s = ''user'' then ''environment'' else ''user'')
   \<and> beforeImageCapture (switchCamera mobile outcome s) = beforeImageCapture s
   \<and> afterImageCapture (switchCamera mobile outcome s) = afterImageCapture s
   \<and> similarity (switchCamera mobile outcome s) = similarity s
   \<and> showLiveFeed (switchCamera mobile outcome s) = showLiveFeed s
   \<and> phase_of (switchCamera mobile outcome s) = phase_of s
   \<and> model (switchCamera mobile outcome s) = model s
   \<and> isModelLoading (switchCamera mobile outcome s) = isModelLoading s
   \<and> inflight (switchCamera mobile outcome s) = inflight s
   \<and> intervalActive (createEffect (switchCamera mobile outcome s))
       = intervalActive (createEffect s)
   \<and> intervalActive (switchCamera mobile outcome s) = intervalActive s
   \<and> beforeImageRef (switchCamera mobile outcome s) = beforeImageRef s
   \<and> isPortrait (switchCamera mobile outcome s) = isPortrait s
   \<and> videoRef (switchCamera mobile (Stream st) s)
       = map_option (\<lambda>v. v\<lparr>srcObject := Some st\<rparr>) (videoRef s)
   \<and> isMobileDevice (switchCamera mobile (Stream st) s) = mobile
   \<and> errorMessage (switchCamera mobile (Stream st) s) = errorMessage s
   \<and> videoRef (switchCamera mobile (CameraError msg) s) = videoRef s
   \<and> isMobileDevice (switchCamera mobile (CameraError msg) s) = isMobileDevice s
   \<and> errorMessage (switchCamera mobile (CameraError msg) s)
       = ''Error accessing camera: '' @ msg"
  by (simp add: switchCamera_def setupCamera_def phase_of_def createEffect_def Let_def
      split: streamResult.split option.split)

section \<open>Properties of the scoring scheduler\<close>

lemma settle_keeps_scheduler:
  "updateSimilarityScore_settle i s = Inr s' \<Longrightarrow>
   showLiveFeed s' = showLiveFeed s \<and> intervalActive s' = intervalActive s"
  by (auto simp add: updateSimilarityScore_settle_def dropCycle_def
      split: option.splits sum.splits prod.splits)

lemma captureBefore_keeps_feed: "showLiveFeed (captureBefore s) = showLiveFeed s"
  by (simp add: captureBefore_def Let_def split: option.split)

lemma switchCamera_keeps_feed: "showLiveFeed (switchCamera mobile outcome s) = showLiveFeed s"
  by (simp add: switchCamera_def setupCamera_def Let_def split: streamResult.split option.split)

lemma captureAfter_keeps_hidden: "\<not> showLiveFeed s \<Longrightarrow> \<not> showLiveFeed (captureAfter s)"
  by (simp add: captureAfter_def Let_def split: option.split sum.split)

lemma loadModel_settle_keeps_feed: "showLiveFeed (loadModel_settle outcome s) = showLiveFeed s"
  by (simp add: loadModel_settle_def setIsModelLoading_def split: loadResult.split)

lemma createEffect_hidden:
  "\<not> showLiveFeed s \<Longrightarrow> \<not> showLiveFeed (createEffect s) \<and> \<not> intervalActive (createEffect s)"
  by (simp add: createEffect_def)

lemma phase_of_createEffect: "phase_of (createEffect s) = phase_of s"
  by (simp add: createEffect_def phase_of_def split: option.split)

lemma reset_stops_interval: "step Tick (createEffect (reset s)) = None"
  by (simp add: createEffect_def reset_def Let_def split: option.split)

text \<open>
  While the live feed is hidden and the interval is cleared, every event other than a
  reset keeps it so, and the event is not a tick.
\<close>

lemma frozen_step:
  assumes "\<not> showLiveFeed s" and "\<not> intervalActive s"
    and "step e s = Some s'" and "e \<noteq> Reset"
  shows "e \<noteq> Tick \<and> \<not> showLiveFeed s' \<and> \<not> intervalActive s'"
proof (cases e)
  case CaptureBefore
  with assms show ?thesis
    using createEffect_hidden [of "captureBefore s"] by (auto simp add: captureBefore_keeps_feed)
next
  case CaptureAfter
  with assms show ?thesis
    using createEffect_hidden [of "captureAfter s"] by (auto simp add: captureAfter_keeps_hidden)
next
  case Reset
  with assms show ?thesis by simp
next
  case (SwitchCamera mobile outcome)
  with assms show ?thesis
    using createEffect_hidden [of "switchCamera mobile outcome s"]
    by (auto simp add: switchCamera_keeps_feed)
next
  case Tick
  with assms show ?thesis by simp
next
  case (Settle i)
  with assms show ?thesis
    by (auto simp add: dropCycle_def dest: settle_keeps_scheduler split: if_splits sum.splits)
next
  case (ModelLoad outcome)
  with assms show ?thesis
    using createEffect_hidden [of "loadModel_settle outcome s"]
    by (auto simp add: loadModel_settle_keeps_feed split: if_splits)
next
  case (VideoFrame w h p)
  with assms show ?thesis
    by (auto split: option.splits if_splits)
qed

lemma frozen_run:
  "\<not> showLiveFeed s \<Longrightarrow> \<not> intervalActive s \<Longrightarrow> run es s = Some s' \<Longrightarrow> Reset \<notin> set es \<Longrightarrow>
   Tick \<notin> set es \<and> \<not> showLiveFeed s' \<and> \<not> intervalActive s'"
proof (induction es arbitrary: s)
  case Nil
  then show ?case by simp
next
  case (Cons e es)
  from Cons.prems(3) obtain s1 where s1: "step e s = Some s1" and r: "run es s1 = Some s'"
    by (auto split: option.splits)
  from Cons.prems(4) have ne: "e \<noteq> Reset" and nes: "Reset \<notin> set es" by auto
  from frozen_step [OF Cons.prems(1) Cons.prems(2) s1 ne]
  have e: "e \<noteq> Tick" and f: "\<not> showLiveFeed s1" and i: "\<not> intervalActive s1" by auto
  from Cons.IH [OF f i r nes] e show ?case by simp
qed

lemma captureAfter_succeeds:
  assumes "beforeImageCapture s \<noteq> None" and "model s \<noteq> None" and "captureImage s \<noteq> None"
  shows "\<not> showLiveFeed (captureAfter s) \<and> phase_of (captureAfter s) = AfterCaptured"
proof -
  from assms obtain b m c where
    "beforeImageCapture s = Some b" "model s = Some m" "captureImage s = Some c"
    by auto
  then show ?thesis
    by (simp add: captureAfter_def updateSimilarityScore_begin_def phase_of_def captureImage_def
        split: option.splits)
qed

text \<open>
  C4. Let \<open>captureAfter\<close> succeed in \<open>s\<close> (a before-frame, a model and a video element are
  there) and lead to \<open>s1\<close>. Then \<open>s1\<close> is in the phase AfterCaptured and the tick is not
  enabled in it; no sequence of events that starts in \<open>s1\<close> and has no reset in it
  contains a tick, and the tick is not enabled after it; and it is still not enabled
  after a reset that follows. Scoring cycles that had started before, and the one
  \<open>captureAfter\<close> starts itself, complete by the event \<open>Settle\<close>, which is not a tick.
\<close>

theorem no_tick_after_captureAfter:
  assumes "beforeImageCapture s \<noteq> None" and "model s \<noteq> None" and "captureImage s \<noteq> None"
    and "step CaptureAfter s = Some s1" and "run es s1 = Some s2" and "Reset \<notin> set es"
  shows "phase_of s1 = AfterCaptured \<and> step Tick s1 = None
       \<and> Tick \<notin> set es \<and> step Tick s2 = None
       \<and> step Tick (createEffect (reset s2)) = None"
proof -
  from assms(4) have s1: "s1 = createEffect (captureAfter s)" by simp
  from captureAfter_succeeds [OF assms(1-3)]
  have h: "\<not> showLiveFeed (captureAfter s)" and p: "phase_of (captureAfter s) = AfterCaptured"
    by auto
  from createEffect_hidden [OF h] s1
  have f: "\<not> showLiveFeed s1" and i: "\<not> intervalActive s1" by auto
  from p s1 have p1: "phase_of s1 = AfterCaptured"
    by (simp add: phase_of_createEffect)
  from frozen_run [OF f i assms(5) assms(6)] i p1 reset_stops_interval [of s2] show ?thesis
    by simp
qed

text \<open>
  Holding \<open>sceneA\<close>, the after-frame is captured; then the video shows a new picture and
  \<open>captureBefore\<close> is called again.
\<close>

theorem no_tick_after_captureAfter_witness:
  "beforeImageCapture (holding sceneA [0, 1]) \<noteq> None
   \<and> model (holding sceneA [0, 1]) \<noteq> None
   \<and> captureImage (holding sceneA [0, 1]) \<noteq> None
   \<and> step CaptureAfter (holding sceneA [0, 1]) = Some frozen
   \<and> run [VideoFrame 2 1 [1, 0], CaptureBefore] frozen
       = Some (createEffect (captureBefore (frozen
            \<lparr>videoRef := Some \<lparr>videoWidth = 2, videoHeight = 1, picture = [1, 0],
                               srcObject = Some 0\<rparr>\<rparr>)))
   \<and> Reset \<notin> set [VideoFrame 2 1 [1, 0], CaptureBefore]
   \<and> phase_of frozen = AfterCaptured
   \<and> step Tick frozen = None
   \<and> Tick \<notin> set [VideoFrame 2 1 [1, 0], CaptureBefore]
   \<and> step Tick (createEffect (captureBefore (frozen
            \<lparr>videoRef := Some \<lparr>videoWidth = 2, videoHeight = 1, picture = [1, 0],
                               srcObject = Some 0\<rparr>\<rparr>))) = None"
proof -
  have b: "beforeImageCapture (holding sceneA [0, 1]) \<noteq> None"
    by (simp add: holding_def)
  have m: "model (holding sceneA [0, 1]) \<noteq> None"
    by (simp add: holding_def watching_def)
  have c: "captureImage (holding sceneA [0, 1]) \<noteq> None"
    by (simp add: holding_def watching_def captureImage_def)
  have s: "step CaptureAfter (holding sceneA [0, 1]) = Some frozen"
    by (simp add: frozen_def)
  have v: "videoRef frozen
             = Some \<lparr>videoWidth = 2, videoHeight = 1, picture = [0, 1], srcObject = Some 0\<rparr>"
    by (simp add: frozen_def createEffect_def captureAfter_def holding_def watching_def
        captureImage_def updateSimilarityScore_begin_def)
  have r: "run [VideoFrame 2 1 [1, 0], CaptureBefore] frozen
       = Some (createEffect (captureBefore (frozen
            \<lparr>videoRef := Some \<lparr>videoWidth = 2, videoHeight = 1, picture = [1, 0],
                               srcObject = Some 0\<rparr>\<rparr>)))"
    by (simp add: v)
  have n: "Reset \<notin> set [VideoFrame 2 1 [1, 0], CaptureBefore]"
    by simp
  from no_tick_after_captureAfter [OF b m c s r n] b m c s r n show ?thesis
    by blast
qed

lemma blind_eq:
  "blind =
     (initial False)\<lparr>model := Some exModel, isModelLoading := False,
        videoRef := Some blankVideo,
        beforeImageRef := Some \<lparr>src = Some emptyFrame, display = ''block''\<rparr>,
        beforeImageCapture := Some emptyFrame, intervalActive := True\<rparr>"
  by (simp add: blind_def loadModel_settle_def setIsModelLoading_def initial_def
      captureBefore_def captureImage_def createEffect_def blankVideo_def blankImg_def
      emptyFrame_def)

lemma blind_reachable:
  "run [ModelLoad (Loaded exModel), CaptureBefore] (initial False) = Some blind"
  by (simp add: blind_eq initial_def loadModel_settle_def setIsModelLoading_def
      captureBefore_def captureImage_def createEffect_def blankVideo_def blankImg_def
      emptyFrame_def)

lemma score_of_empty: "cosineSimilarity [] [] = NaN"
  by (simp add: cosineSimilarity_def dotProduct_def magnitude_def divide_js_def)

lemma blind_tick:
  "step Tick blind = Some (blind\<lparr>inflight := [(emptyFrame, emptyFrame)]\<rparr>)"
  by (simp add: blind_eq initial_def updateSimilarityScore_begin_def captureImage_def
      blankVideo_def emptyFrame_def)

lemma blind_settle:
  "step (Settle 0) (blind\<lparr>inflight := [(emptyFrame, emptyFrame)]\<rparr>)
     = Some (blind\<lparr>similarity := NaN\<rparr>)"
  by (simp add: blind_eq initial_def updateSimilarityScore_settle_def at_js_def
      dropCycle_def exModel_def emptyFrame_def score_of_empty)

lemma holding_same_reachable:
  "run [CaptureBefore] (watching [1, 0]) = Some (holding sceneA [1, 0])"
  by (simp add: watching_def holding_def sceneA_def captureBefore_def captureImage_def
      createEffect_def blankImg_def)

lemma stale_write:
  "run [Tick, Reset, Settle 0] (holding sceneA [1, 0])
     = Some ((createEffect (reset (holding sceneA [1, 0])))\<lparr>similarity := Num 1\<rparr>)"
  by (simp add: holding_def watching_def sceneA_def updateSimilarityScore_begin_def
      captureImage_def reset_def createEffect_def blankImg_def
      updateSimilarityScore_settle_def at_js_def dropCycle_def exModel_def score_same)

text \<open>
  What holds in every state the component reaches from its creation: the interval is
  set only while a before-frame is stored and the live feed is shown, and a before-frame
  is stored only when the video element exists.
\<close>

lemma scheduler_step:
  assumes "intervalActive s \<longrightarrow> beforeImageCapture s \<noteq> None \<and> showLiveFeed s"
    and "beforeImageCapture s \<noteq> None \<longrightarrow> videoRef s \<noteq> None"
    and "step e s = Some s'"
  shows "(intervalActive s' \<longrightarrow> beforeImageCapture s' \<noteq> None \<and> showLiveFeed s')
       \<and> (beforeImageCapture s' \<noteq> None \<longrightarrow> videoRef s' \<noteq> None)"
proof (cases e)
  case CaptureBefore
  with assms show ?thesis
    by (auto simp add: createEffect_def captureBefore_def captureImage_def Let_def
        split: option.splits)
next
  case CaptureAfter
  with assms show ?thesis
    by (auto simp add: createEffect_def captureAfter_def captureImage_def Let_def
        updateSimilarityScore_begin_def split: option.splits if_splits)
next
  case Reset
  with assms show ?thesis
    by (auto simp add: createEffect_def reset_def Let_def split: option.splits)
next
  case (SwitchCamera mobile outcome)
  with assms show ?thesis
    by (auto simp add: createEffect_def switchCamera_def setupCamera_def Let_def
        split: option.splits streamResult.splits)
next
  case Tick
  with assms show ?thesis
    by (auto simp add: updateSimilarityScore_begin_def split: option.splits if_splits)
next
  case (Settle i)
  with assms show ?thesis
    by (auto simp add: updateSimilarityScore_settle_def dropCycle_def
        split: option.splits if_splits sum.splits prod.splits)
next
  case (ModelLoad outcome)
  with assms show ?thesis
    by (auto simp add: createEffect_def loadModel_settle_def setIsModelLoading_def
        split: loadResult.splits if_splits)
next
  case (VideoFrame w h p)
  with assms show ?thesis
    by (auto split: option.splits if_splits)
qed

lemma scheduler_run:
  "intervalActive s \<longrightarrow> beforeImageCapture s \<noteq> None \<and> showLiveFeed s \<Longrightarrow>
   beforeImageCapture s \<noteq> None \<longrightarrow> videoRef s \<noteq> None \<Longrightarrow>
   run es s = Some s' \<Longrightarrow>
   (intervalActive s' \<longrightarrow> beforeImageCapture s' \<noteq> None \<and> showLiveFeed s')
   \<and> (beforeImageCapture s' \<noteq> None \<longrightarrow> videoRef s' \<noteq> None)"
proof (induction es arbitrary: s)
  case Nil
  then show ?case by simp
next
  case (Cons e es)
  from Cons.prems(3) obtain s1 where s1: "step e s = Some s1" and r: "run es s1 = Some s'"
    by (auto split: option.splits)
  from scheduler_step [OF Cons.prems(1) Cons.prems(2) s1]
  have a: "intervalActive s1 \<longrightarrow> beforeImageCapture s1 \<noteq> None \<and> showLiveFeed s1"
    and b: "beforeImageCapture s1 \<noteq> None \<longrightarrow> videoRef s1 \<noteq> None"
    by auto
  from Cons.IH [OF a b r] show ?case .
qed

lemma tick_finds_before_frame:
  assumes "run es (initial portrait) = Some s" and "step Tick s = Some s'"
  shows "beforeImageCapture s \<noteq> None \<and> videoRef s \<noteq> None \<and> showLiveFeed s"
proof -
  have a: "intervalActive (initial portrait) \<longrightarrow>
      beforeImageCapture (initial portrait) \<noteq> None \<and> showLiveFeed (initial portrait)"
    by (simp add: initial_def)
  have b: "beforeImageCapture (initial portrait) \<noteq> None \<longrightarrow> videoRef (initial portrait) \<noteq> None"
    by (simp add: initial_def)
  from assms(2) have i: "intervalActive s"
    by (simp split: if_splits)
  from scheduler_run [OF a b assms(1)] i show ?thesis by simp
qed

text \<open>
  C8, as the code has it. A scoring cycle that finds no before-frame stored, or no video
  element, returns without an error, starts nothing and leaves the state, and so the
  score, as it was. A cycle is started only in a state with a before-frame and a video
  element, and it is put in flight with the stored frame and the sampled one. Every tick
  that fires in a state the component reaches from its creation finds a before-frame and
  a video element. The score is written only by the completion of a cycle in flight.
\<close>

theorem scoring_cycle_guard:
  "(beforeImageCapture s = None \<or> videoRef s = None \<longrightarrow> updateSimilarityScore_begin s = Inr s)
   \<and> (updateSimilarityScore_begin s = Inr s' \<and> s' \<noteq> s \<longrightarrow>
        (\<exists>b c. beforeImageCapture s = Some b \<and> captureImage s = Some c
               \<and> videoRef s \<noteq> None
               \<and> s' = s\<lparr>inflight := inflight s @ [(b, c)]\<rparr>))
   \<and> (run es (initial portrait) = Some s \<and> step Tick s = Some s' \<longrightarrow>
        beforeImageCapture s \<noteq> None \<and> videoRef s \<noteq> None \<and> showLiveFeed s)
   \<and> (updateSimilarityScore_settle i s = Inr s' \<and> similarity s' \<noteq> similarity s \<longrightarrow>
        i < length (inflight s))"
proof -
  have sk: "beforeImageCapture s = None \<or> videoRef s = None \<longrightarrow>
      updateSimilarityScore_begin s = Inr s"
    by (auto simp add: updateSimilarityScore_begin_def captureImage_def split: option.splits)
  have st: "updateSimilarityScore_begin s = Inr s' \<and> s' \<noteq> s \<longrightarrow>
        (\<exists>b c. beforeImageCapture s = Some b \<and> captureImage s = Some c
               \<and> videoRef s \<noteq> None
               \<and> s' = s\<lparr>inflight := inflight s @ [(b, c)]\<rparr>)"
    by (auto simp add: updateSimilarityScore_begin_def captureImage_def split: option.splits)
  have tk: "run es (initial portrait) = Some s \<and> step Tick s = Some s' \<longrightarrow>
        beforeImageCapture s \<noteq> None \<and> videoRef s \<noteq> None \<and> showLiveFeed s"
    using tick_finds_before_frame [of es portrait s s'] by blast
  have wr: "updateSimilarityScore_settle i s = Inr s' \<and> similarity s' \<noteq> similarity s \<longrightarrow>
        i < length (inflight s)"
    by (auto simp add: updateSimilarityScore_settle_def at_js_def split: if_splits)
  from sk st tk wr show ?thesis by blast
qed

text \<open>
  Nothing is captured while the camera plays: the cycle is skipped. In \<open>blind\<close> a tick
  fires and puts a cycle in flight, and the completion of that cycle changes the score.
\<close>

theorem scoring_cycle_guard_witness:
  "beforeImageCapture (watching [1, 0]) = None
   \<and> updateSimilarityScore_begin (watching [1, 0]) = Inr (watching [1, 0])
   \<and> updateSimilarityScore_begin blind = Inr (blind\<lparr>inflight := [(emptyFrame, emptyFrame)]\<rparr>)
   \<and> blind\<lparr>inflight := [(emptyFrame, emptyFrame)]\<rparr> \<noteq> blind
   \<and> beforeImageCapture blind = Some emptyFrame
   \<and> captureImage blind = Some emptyFrame
   \<and> run [ModelLoad (Loaded exModel), CaptureBefore] (initial False) = Some blind
   \<and> step Tick blind = Some (blind\<lparr>inflight := [(emptyFrame, emptyFrame)]\<rparr>)
   \<and> showLiveFeed blind
   \<and> updateSimilarityScore_settle 0 (blind\<lparr>inflight := [(emptyFrame, emptyFrame)]\<rparr>)
       = Inr (blind\<lparr>similarity := NaN\<rparr>)
   \<and> similarity (blind\<lparr>similarity := NaN\<rparr>)
       \<noteq> similarity (blind\<lparr>inflight := [(emptyFrame, emptyFrame)]\<rparr>)
   \<and> (0 :: nat) < length (inflight (blind\<lparr>inflight := [(emptyFrame, emptyFrame)]\<rparr>))"
proof -
  have n: "beforeImageCapture (watching [1, 0]) = None"
    by (simp add: watching_def)
  have g: "updateSimilarityScore_begin blind
             = Inr (blind\<lparr>inflight := [(emptyFrame, emptyFrame)]\<rparr>)"
    by (simp add: blind_eq initial_def updateSimilarityScore_begin_def captureImage_def
        blankVideo_def emptyFrame_def)
  have "inflight (blind\<lparr>inflight := [(emptyFrame, emptyFrame)]\<rparr>) \<noteq> inflight blind"
    by (simp add: blind_eq initial_def)
  then have d: "blind\<lparr>inflight := [(emptyFrame, emptyFrame)]\<rparr> \<noteq> blind"
    by metis
  have w: "updateSimilarityScore_settle 0 (blind\<lparr>inflight := [(emptyFrame, emptyFrame)]\<rparr>)
       = Inr (blind\<lparr>similarity := NaN\<rparr>)"
    by (simp add: blind_eq initial_def updateSimilarityScore_settle_def at_js_def
        dropCycle_def exModel_def emptyFrame_def score_of_empty)
  have c: "similarity (blind\<lparr>similarity := NaN\<rparr>)
       \<noteq> similarity (blind\<lparr>inflight := [(emptyFrame, emptyFrame)]\<rparr>)"
    by (simp add: blind_eq initial_def)
  have captured: "beforeImageCapture blind = Some emptyFrame" "captureImage blind = Some emptyFrame"
    by (simp_all add: blind_eq initial_def captureImage_def blankVideo_def emptyFrame_def)
  from scoring_cycle_guard [of "watching [1, 0]"] n
  have skipped: "updateSimilarityScore_begin (watching [1, 0]) = Inr (watching [1, 0])"
    by blast
  from scoring_cycle_guard [of blind "blind\<lparr>inflight := [(emptyFrame, emptyFrame)]\<rparr>"
      "[ModelLoad (Loaded exModel), CaptureBefore]" False] blind_reachable blind_tick
  have shown: "showLiveFeed blind"
    by blast
  from scoring_cycle_guard [of "blind\<lparr>inflight := [(emptyFrame, emptyFrame)]\<rparr>"
      "blind\<lparr>similarity := NaN\<rparr>" "[]" False 0] w c
  have inside: "(0 :: nat) < length (inflight (blind\<lparr>inflight := [(emptyFrame, emptyFrame)]\<rparr>))"
    by blast
  from n skipped g d captured blind_reachable blind_tick shown w c inside
  show ?thesis by blast
qed

text \<open>
  Two runs of the component against the skipping of the cycle and against the writing
  of the score. In \<open>blind\<close> the video element has no stream, so no live frame can be
  sampled; the tick that fires there is not skipped, and its cycle changes the score from
  0 to \<open>NaN\<close>. And a cycle that a tick has started writes its score after a reset, when
  no before-frame is stored.
\<close>

theorem scoring_cycle_without_stream:
  "videoRef blind = Some blankVideo
   \<and> srcObject blankVideo = None
   \<and> similarity blind = Num 0
   \<and> run [Tick, Settle 0] blind = Some (blind\<lparr>similarity := NaN\<rparr>)
   \<and> similarity (blind\<lparr>similarity := NaN\<rparr>) = NaN
   \<and> run [Tick, Reset, Settle 0] (holding sceneA [1, 0])
       = Some ((createEffect (reset (holding sceneA [1, 0])))\<lparr>similarity := Num 1\<rparr>)
   \<and> beforeImageCapture ((createEffect (reset (holding sceneA [1, 0])))\<lparr>similarity := Num 1\<rparr>)
       = None
   \<and> similarity (createEffect (reset (holding sceneA [1, 0]))) = Num 0"
proof -
  have v: "videoRef blind = Some blankVideo" "similarity blind = Num 0"
    by (simp_all add: blind_eq initial_def)
  have r: "run [Tick, Settle 0] blind = Some (blind\<lparr>similarity := NaN\<rparr>)"
    by (simp only: run.simps blind_tick blind_settle option.case)
  have b: "beforeImageCapture ((createEffect (reset (holding sceneA [1, 0])))\<lparr>similarity := Num 1\<rparr>)
       = None"
    "similarity (createEffect (reset (holding sceneA [1, 0]))) = Num 0"
    by (simp_all add: createEffect_def reset_def Let_def split: option.split)
  from v r b stale_write show ?thesis
    by (simp add: blankVideo_def)
qed

end
